theory Spec2Isabelle
  imports Main "HOL-Library.Word"
begin

section \<open>Python library functions used by the clients\<close>

subsection \<open>\<open>str\<close> of an integer\<close>

text \<open>
  \<open>str(n)\<close> for a Python \<open>int\<close>: the decimal digits, most significant first, with a
  leading minus sign for a negative number.
\<close>

definition digit_char :: "nat \<Rightarrow> char" where
  "digit_char d = ''0123456789'' ! d"

fun str_nat :: "nat \<Rightarrow> string" where
  "str_nat n = (if n < 10 then [digit_char n] else str_nat (n div 10) @ [digit_char (n mod 10)])"

declare str_nat.simps [simp del]

definition str_int :: "int \<Rightarrow> string" where
  "str_int i = (if i < 0 then CHR ''-'' # str_nat (nat (- i)) else str_nat (nat i))"

subsection \<open>\<open>urllib.parse.urlunparse\<close>\<close>

text \<open>
  \<open>urlunsplit\<close> and \<open>urlunparse\<close> of the standard library (CPython 3.11,
  \<open>Lib/urllib/parse.py\<close>), on \<open>str\<close> arguments. \<open>url[:2]\<close> and \<open>url[:1]\<close> are
  \<open>take 2 url\<close> and \<open>take 1 url\<close>; a string is true when it is not empty.
\<close>

definition uses_netloc :: "string list" where
  "uses_netloc = ['''', ''ftp'', ''http'', ''gopher'', ''nntp'', ''telnet'',
     ''imap'', ''wais'', ''file'', ''mms'', ''https'', ''shttp'',
     ''snews'', ''prospero'', ''rtsp'', ''rtsps'', ''rtspu'', ''rsync'',
     ''svn'', ''svn+ssh'', ''sftp'', ''nfs'', ''git'', ''git+ssh'',
     ''ws'', ''wss'']"

definition urlunsplit :: "string \<times> string \<times> string \<times> string \<times> string \<Rightarrow> string" where
  "urlunsplit components =
     (case components of (scheme, netloc, url, query, fragment) \<Rightarrow>
        let url1 =
              (if netloc \<noteq> [] \<or> (scheme \<noteq> [] \<and> List.member uses_netloc scheme)
                    \<or> take 2 url = ''//''
               then (let url0 = (if url \<noteq> [] \<and> take 1 url \<noteq> ''/'' then ''/'' @ url else url)
                     in ''//'' @ netloc @ url0)
               else url);
            url2 = (if scheme \<noteq> [] then scheme @ '':'' @ url1 else url1);
            url3 = (if query \<noteq> [] then url2 @ ''?'' @ query else url2);
            url4 = (if fragment \<noteq> [] then url3 @ ''#'' @ fragment else url3)
        in url4)"

definition urlunparse ::
  "string \<times> string \<times> string \<times> string \<times> string \<times> string \<Rightarrow> string" where
  "urlunparse components =
     (case components of (scheme, netloc, url, params, query, fragment) \<Rightarrow>
        let url1 = (if params \<noteq> [] then url @ '';'' @ params else url)
        in urlunsplit (scheme, netloc, url1, query, fragment))"

section \<open>The HTTP clients (\<open>http_client.py\<close>)\<close>

subsection \<open>Data\<close>

text \<open>
  A Python \<open>Dict[str, Any]\<close> of headers is an association list in insertion order; it is
  false (as in \<open>headers or {...}\<close>) exactly when it is empty. A raw body is a list of
  bytes.
\<close>

type_synonym 'v dict = "(string \<times> 'v) list"
type_synonym bytes = "8 word list"

text \<open>
  \<open>HttpClientError(code, content)\<close>: the exception class the module declares, with its
  opaque content as raw bytes. Every other exception that can leave a \<open>request\<close> is one
  the transport raised.
\<close>

datatype 'e http_exception =
    HttpClientError int bytes
  | Transport 'e

text \<open>The attributes \<open>_host\<close>, \<open>_port\<close>, \<open>_scheme\<close> and \<open>_headers\<close> of \<open>HttpClient\<close>.\<close>

record 'v HttpClient =
  host :: string
  port :: int
  scheme :: string
  headers :: "'v dict"

definition default_headers :: "string dict" where
  "default_headers =
     [(''Content-Type'', ''application/json''), (''Accept'', ''application/json'')]"

text \<open>
  \<open>HttpClient.__init__(host, port=80, scheme="http", headers=None)\<close>. The argument
  \<open>headers\<close> is \<open>None\<close> or a dict; \<open>headers or {...}\<close> takes the built-in pair when it is
  \<open>None\<close> and when it is the empty dict.
\<close>

definition HttpClient_init ::
  "string \<Rightarrow> int \<Rightarrow> string \<Rightarrow> string dict option \<Rightarrow> string HttpClient" where
  "HttpClient_init h p s hdrs =
     \<lparr> host = h, port = p, scheme = s,
       headers = (case hdrs of
                    None \<Rightarrow> default_headers
                  | Some d \<Rightarrow> if d \<noteq> [] then d else default_headers) \<rparr>"

text \<open>The \<open>headers\<close> setter replaces the mapping wholesale.\<close>

definition set_headers :: "'v dict \<Rightarrow> 'v HttpClient \<Rightarrow> 'v HttpClient" where
  "set_headers v self = self\<lparr> headers := v \<rparr>"

text \<open>
  The keyword arguments both clients hand to their transport
  (\<open>requests.request\<close>, \<open>session.request\<close>): method, url, data, headers,
  allow\_redirects, timeout.
\<close>

record ('d, 'v, 't) send_args =
  arg_method :: string
  arg_url :: string
  arg_data :: "'d option"
  arg_headers :: "'v dict"
  arg_allow_redirects :: bool
  arg_timeout :: "'t option"

text \<open>The attributes of \<open>requests.Response\<close> that \<open>SyncHttpClient.request\<close> reads.\<close>

record ('rh, 'ck) response =
  status_code :: int
  content :: bytes
  resp_headers :: 'rh
  cookies :: 'ck

text \<open>
  A call \<open>logger.debug(fmt, *args)\<close> is recorded as the format string with its
  arguments.
\<close>

datatype 'd log_arg = LStr string | LInt int | LBytes bytes | LData 'd

type_synonym 'd log_record = "string \<times> 'd log_arg list"

text \<open>
  The effects of a call: the state of the world the transport acts on, and the lines
  handed to the logger.
\<close>

record ('w, 'd) env =
  world :: 'w
  log :: "'d log_record list"

definition logger_debug :: "string \<Rightarrow> 'd log_arg list \<Rightarrow> ('w, 'd) env \<Rightarrow> ('w, 'd) env" where
  "logger_debug fmt args s = s\<lparr> log := log s @ [(fmt, args)] \<rparr>"

subsection \<open>\<open>SyncHttpClient.request\<close>\<close>

text \<open>
  The transport \<open>requests.request\<close> is a parameter: it takes the keyword arguments and
  the world, and either raises (\<open>Inl\<close>) or returns a response. An exception of the
  transport leaves \<open>request\<close> at the call, so the second log line is not written.
\<close>

definition sync_request ::
  "'v HttpClient
   \<Rightarrow> (('d, 'v, 't) send_args \<Rightarrow> 'w \<Rightarrow> ('e + ('rh, 'ck) response) \<times> 'w)
   \<Rightarrow> string \<Rightarrow> string \<Rightarrow> string \<Rightarrow> 'd option \<Rightarrow> string \<Rightarrow> 'v dict option \<Rightarrow> bool
   \<Rightarrow> 't option \<Rightarrow> ('w, 'd) env
   \<Rightarrow> ('e http_exception + int \<times> bytes \<times> 'rh \<times> 'ck) \<times> ('w, 'd) env" where
  "sync_request self requests_request method path query data request_id hdrs
       allow_redirects timeout s =
     (let url = urlunparse (scheme self, host self @ '':'' @ str_int (port self),
                            path, '''', query, '''');
          request_id1 = (if request_id \<noteq> [] then '' ['' @ request_id @ '']'' else '''');
          s1 = logger_debug ''--->%s HTTP %s %s %s''
                 [LStr request_id1, LStr method, LStr url,
                  (case data of Some d \<Rightarrow> LData d | None \<Rightarrow> LStr '''')] s;
          hdrs1 = (case hdrs of Some h \<Rightarrow> h | None \<Rightarrow> headers self)
      in case requests_request
                \<lparr> arg_method = method, arg_url = url, arg_data = data, arg_headers = hdrs1,
                  arg_allow_redirects = allow_redirects, arg_timeout = timeout \<rparr> (world s1) of
           (Inl e, w) \<Rightarrow> (Inl (Transport e), s1\<lparr> world := w \<rparr>)
         | (Inr resp, w) \<Rightarrow>
             (let code = status_code resp; data1 = content resp;
                  ret_headers = resp_headers resp; cookies1 = cookies resp;
                  s2 = logger_debug ''<---%s HTTP %s %s code=%s data=%s''
                         [LStr request_id1, LStr method, LStr url, LInt code, LBytes data1]
                         (s1\<lparr> world := w \<rparr>)
              in (Inr (code, data1, ret_headers, cookies1), s2)))"

subsection \<open>\<open>AsyncHttpClient.request\<close>\<close>

text \<open>
  The transport is \<open>aiohttp\<close>: a connector made with \<open>ssl=False\<close>, a session on it, the
  request and the read of the body, all inside the two \<open>async with\<close> blocks. It is a
  parameter that takes the connector's \<open>ssl\<close> flag and the keyword arguments and either
  raises or gives the status and the body read.
\<close>

definition async_request ::
  "'v HttpClient
   \<Rightarrow> (bool \<Rightarrow> ('d, 'v, 't) send_args \<Rightarrow> 'w \<Rightarrow> ('e + int \<times> bytes) \<times> 'w)
   \<Rightarrow> string \<Rightarrow> string \<Rightarrow> string \<Rightarrow> 'd option \<Rightarrow> string \<Rightarrow> 'v dict option \<Rightarrow> bool
   \<Rightarrow> 't option \<Rightarrow> ('w, 'd) env
   \<Rightarrow> ('e http_exception + int \<times> bytes) \<times> ('w, 'd) env" where
  "async_request self session_request method path query data request_id hdrs
       allow_redirects timeout s =
     (let url = urlunparse (scheme self, host self @ '':'' @ str_int (port self),
                            path, '''', query, '''');
          request_id1 = (if request_id \<noteq> [] then '' ['' @ request_id @ '']'' else '''');
          hdrs1 = (case hdrs of Some h \<Rightarrow> h | None \<Rightarrow> headers self);
          s1 = logger_debug ''--->%s HTTP %s %s %s''
                 [LStr request_id1, LStr method, LStr url,
                  (case data of Some d \<Rightarrow> LData d | None \<Rightarrow> LStr '''')] s
      in case session_request False
                \<lparr> arg_method = method, arg_url = url, arg_data = data, arg_headers = hdrs1,
                  arg_allow_redirects = allow_redirects, arg_timeout = timeout \<rparr> (world s1) of
           (Inl e, w) \<Rightarrow> (Inl (Transport e), s1\<lparr> world := w \<rparr>)
         | (Inr (code, data1), w) \<Rightarrow>
             (let s2 = logger_debug ''<---%s HTTP %s %s code=%s data=%s''
                         [LStr request_id1, LStr method, LStr url, LInt code, LBytes data1]
                         (s1\<lparr> world := w \<rparr>)
              in (Inr (code, data1), s2)))"


section \<open>The RabbitMQ client (\<open>rabbitmq_client.py\<close>)\<close>

text \<open>
  The exceptions that can leave the client: \<open>AMQPChannelError\<close> with its message, which
  the client raises itself, and whatever an operation of \<open>pika\<close> raised.
\<close>

datatype 'e amqp_exception =
    AMQPChannelError string
  | Raised 'e

text \<open>\<open>pika.DeliveryMode\<close>, an enumeration with the values 1 and 2.\<close>

datatype DeliveryMode = Transient | Persistent

fun DeliveryMode_value :: "DeliveryMode \<Rightarrow> int" where
  "DeliveryMode_value Transient = 1"
| "DeliveryMode_value Persistent = 2"

text \<open>The two fields of \<open>pika.spec.BasicProperties\<close> that \<open>publish\<close> sets.\<close>

record BasicProperties =
  content_type :: string
  delivery_mode :: int

text \<open>
  The surface of \<open>pika\<close> the client consumes, as parameters: \<open>BlockingConnection.channel\<close>
  and, of a \<open>BlockingChannel\<close>, \<open>is_open\<close>, \<open>basic_get\<close>, \<open>basic_publish\<close> (exchange,
  routing key, body, properties) and \<open>close\<close>. Each acts on the world and either raises
  or returns.
\<close>

record ('ch, 'w, 'e, 'm) pika =
  connection_channel :: "'w \<Rightarrow> ('e + 'ch) \<times> 'w"
  is_open :: "'ch \<Rightarrow> 'w \<Rightarrow> bool"
  basic_get :: "'ch \<Rightarrow> string \<Rightarrow> 'w \<Rightarrow> ('e + 'm) \<times> 'w"
  basic_publish ::
    "'ch \<Rightarrow> string \<Rightarrow> string \<Rightarrow> string \<Rightarrow> BasicProperties \<Rightarrow> 'w \<Rightarrow> ('e + unit) \<times> 'w"
  channel_close :: "'ch \<Rightarrow> 'w \<Rightarrow> ('e + unit) \<times> 'w"

text \<open>\<open>RabbitMQClient.channel\<close>, on the connection \<open>self._rabbitmq\<close>.\<close>

definition channel ::
  "('ch, 'w, 'e, 'm) pika \<Rightarrow> ('w, 'd) env \<Rightarrow> ('e amqp_exception + 'ch) \<times> ('w, 'd) env" where
  "channel rabbitmq s =
     (let s1 = logger_debug ''Creating channel'' [] s
      in case connection_channel rabbitmq (world s1) of
           (Inl e, w) \<Rightarrow> (Inl (Raised e), s1\<lparr> world := w \<rparr>)
         | (Inr ch, w) \<Rightarrow> (Inr ch, logger_debug ''Created'' [] (s1\<lparr> world := w \<rparr>)))"

text \<open>\<open>RabbitMQClient.get(channel, queue)\<close>.\<close>

definition get ::
  "('ch, 'w, 'e, 'm) pika \<Rightarrow> 'ch \<Rightarrow> string \<Rightarrow> ('w, 'd) env
   \<Rightarrow> ('e amqp_exception + 'm) \<times> ('w, 'd) env" where
  "get rabbitmq ch queue s =
     (if \<not> is_open rabbitmq ch (world s)
      then (Inl (AMQPChannelError ''Channel is closed''), s)
      else (case basic_get rabbitmq ch queue (world s) of
              (Inl e, w) \<Rightarrow> (Inl (Raised e), s\<lparr> world := w \<rparr>)
            | (Inr m, w) \<Rightarrow> (Inr m, s\<lparr> world := w \<rparr>)))"

text \<open>
  \<open>RabbitMQClient.publish(queue, message="", content_type="application/octect-stream",
  delivery_mode=DeliveryMode.Persistent)\<close>. An argument the caller leaves out is \<open>None\<close>
  here and takes the default of the signature. The statement \<open>channel.close()\<close> stands
  after the \<open>if\<close>, so it runs only when \<open>basic_publish\<close> has returned.
\<close>

definition publish ::
  "('ch, 'w, 'e, 'm) pika \<Rightarrow> string \<Rightarrow> string option \<Rightarrow> string option \<Rightarrow> DeliveryMode option
   \<Rightarrow> ('w, 'd) env \<Rightarrow> ('e amqp_exception + unit) \<times> ('w, 'd) env" where
  "publish rabbitmq queue message_arg content_type_arg delivery_mode_arg s =
     (let message = (case message_arg of Some m \<Rightarrow> m | None \<Rightarrow> []);
          content_type1 = (case content_type_arg of Some c \<Rightarrow> c
                           | None \<Rightarrow> ''application/octect-stream'');
          delivery_mode1 = (case delivery_mode_arg of Some m \<Rightarrow> m | None \<Rightarrow> Persistent)
      in case channel rabbitmq s of
           (Inl e, s1) \<Rightarrow> (Inl e, s1)
         | (Inr ch, s1) \<Rightarrow>
             if is_open rabbitmq ch (world s1)
             then (case basic_publish rabbitmq ch [] queue message
                          \<lparr> content_type = content_type1,
                            delivery_mode = DeliveryMode_value delivery_mode1 \<rparr> (world s1) of
                     (Inl e, w) \<Rightarrow> (Inl (Raised e), s1\<lparr> world := w \<rparr>)
                   | (Inr u, w) \<Rightarrow>
                       (case channel_close rabbitmq ch w of
                          (Inl e, w') \<Rightarrow> (Inl (Raised e), s1\<lparr> world := w' \<rparr>)
                        | (Inr u', w') \<Rightarrow> (Inr (), s1\<lparr> world := w' \<rparr>)))
             else (Inl (AMQPChannelError ''Channel is closed''), s1))"

section \<open>The serialisation mixin (\<open>model.py\<close>)\<close>

subsection \<open>Python values\<close>

text \<open>
  A \<open>decimal.Decimal\<close> as the library holds it: the sign, the coefficient as a string of
  digits and the exponent, or one of the special values (with the payload of a NaN).
\<close>

datatype decimal =
    Finite bool string int
  | Infinity bool
  | NaN bool string
  | SNaN bool string

text \<open>
  The values \<open>_asdict\<close> tells apart, and the rest. An \<open>Enum\<close> member has a name and a
  value, a \<open>UUID\<close> is its 128-bit integer, a dict is its items in insertion order. Keys are
  compared structurally; Python's equality of numbers of different types is not modelled.
\<close>

datatype pyval =
    PyNone
  | PyBool bool
  | PyInt int
  | PyFloat "64 word"
  | PyStr string
  | PyBytes bytes
  | PyTuple "pyval list"
  | PyList "pyval list"
  | PyDict "(pyval \<times> pyval) list"
  | PyEnum string pyval
  | PyUUID "128 word"
  | PyDecimal decimal

subsection \<open>\<open>str\<close> of a UUID and of a Decimal\<close>

text \<open>
  \<open>UUID.__str__\<close>: \<open>'%032x' % self.int\<close>, cut into groups of 8, 4, 4, 4 and 12 digits
  joined with hyphens.
\<close>

definition hex_char :: "nat \<Rightarrow> char" where
  "hex_char d = ''0123456789abcdef'' ! d"

fun hex_digits :: "nat \<Rightarrow> nat \<Rightarrow> string" where
  "hex_digits w n =
     (if w = 0 then [] else hex_digits (w - 1) (n div 16) @ [hex_char (n mod 16)])"

declare hex_digits.simps [simp del]

definition str_uuid :: "128 word \<Rightarrow> string" where
  "str_uuid u =
     (let hex = hex_digits 32 (unat u)
      in take 8 hex @ ''-'' @ take 4 (drop 8 hex) @ ''-'' @ take 4 (drop 12 hex) @ ''-''
         @ take 4 (drop 16 hex) @ ''-'' @ drop 20 hex)"

text \<open>
  \<open>Decimal.__str__\<close> (\<open>Lib/_pydecimal.py\<close>, with \<open>eng=False\<close> and the default context's
  capital \<open>E\<close>): the scientific string, which keeps every digit of the coefficient.
\<close>

definition sign_str :: "bool \<Rightarrow> string" where
  "sign_str sg = (if sg then ''-'' else [])"

definition format_plus_d :: "int \<Rightarrow> string" where
  "format_plus_d n = (if n < 0 then str_int n else ''+'' @ str_int n)"

fun str_decimal :: "decimal \<Rightarrow> string" where
  "str_decimal (Infinity sg) = sign_str sg @ ''Infinity''"
| "str_decimal (NaN sg payload) = sign_str sg @ ''NaN'' @ payload"
| "str_decimal (SNaN sg payload) = sign_str sg @ ''sNaN'' @ payload"
| "str_decimal (Finite sg digits e) =
     (let leftdigits = e + int (length digits);
          dotplace = (if e \<le> 0 \<and> leftdigits > - 6 then leftdigits else 1);
          intpart = (if dotplace \<le> 0 then ''0''
                     else if dotplace \<ge> int (length digits)
                     then digits @ replicate (nat (dotplace - int (length digits))) CHR ''0''
                     else take (nat dotplace) digits);
          fracpart = (if dotplace \<le> 0
                      then ''.'' @ replicate (nat (- dotplace)) CHR ''0'' @ digits
                      else if dotplace \<ge> int (length digits) then []
                      else ''.'' @ drop (nat dotplace) digits);
          exp = (if leftdigits = dotplace then []
                 else ''E'' @ format_plus_d (leftdigits - dotplace))
      in sign_str sg @ intpart @ fracpart @ exp)"

subsection \<open>\<open>_asdict\<close> and \<open>Model.to_dict\<close>\<close>

text \<open>
  \<open>d[k] = v\<close> on a dict: the value of an existing key is replaced in place, a new key
  goes to the end.
\<close>

fun dict_setitem :: "('k \<times> 'v) list \<Rightarrow> 'k \<Rightarrow> 'v \<Rightarrow> ('k \<times> 'v) list" where
  "dict_setitem [] k v = [(k, v)]"
| "dict_setitem ((k', v') # d) k v =
     (if k' = k then (k', v) # d else (k', v') # dict_setitem d k v)"

text \<open>
  \<open>_asdict\<close>: the \<open>isinstance\<close> tests in the order of the source. The dict
  comprehension inserts the converted items one after the other into a new dict.
\<close>

fun asdict :: "pyval \<Rightarrow> pyval" where
  "asdict (PyDict kvs) =
     PyDict (fold (\<lambda>(k, v) d. dict_setitem d (asdict k) (asdict v)) kvs [])"
| "asdict (PyList xs) = PyList (map asdict xs)"
| "asdict (PyEnum name v) = v"
| "asdict (PyUUID u) = PyStr (str_uuid u)"
| "asdict (PyDecimal d) = PyStr (str_decimal d)"
| "asdict obj = obj"

text \<open>
  \<open>Model.to_dict(encode_json=True)\<close>; \<open>super().to_dict\<close> is the method of
  \<open>DataClassJsonMixin\<close>, a parameter here.
\<close>

definition Model_to_dict :: "('m \<Rightarrow> bool \<Rightarrow> pyval) \<Rightarrow> 'm \<Rightarrow> bool \<Rightarrow> pyval" where
  "Model_to_dict super_to_dict self encode_json =
     (let dct = super_to_dict self encode_json in asdict dct)"

section \<open>Specification-side definitions and test doubles\<close>

text \<open>
  A transport that records the keyword arguments of every call it receives (the world is
  the list of calls so far) and answers with a given responder.
\<close>

definition recording ::
  "(('d, 'v, 't) send_args \<Rightarrow> 'r) \<Rightarrow> ('d, 'v, 't) send_args \<Rightarrow> ('d, 'v, 't) send_args list
   \<Rightarrow> 'r \<times> ('d, 'v, 't) send_args list" where
  "recording responder args calls = (responder args, calls @ [args])"

text \<open>
  The URL as the specification words it: scheme, \<open>://\<close>, host, \<open>:\<close>, port, path, and
  \<open>?query\<close>. The scheme's colon is written only for a scheme that is not empty, a path
  that does not start with a slash gets one, and the question mark is written only for a
  query that is not empty.
\<close>

definition structural_url :: "string \<Rightarrow> string \<Rightarrow> int \<Rightarrow> string \<Rightarrow> string \<Rightarrow> string" where
  "structural_url sch h p path query =
     (if sch = [] then [] else sch @ '':'') @ ''//'' @ h @ '':'' @ str_int p
     @ (if path = [] \<or> take 1 path = ''/'' then path else ''/'' @ path)
     @ (if query = [] then [] else ''?'' @ query)"

text \<open>The specification's request descriptor: what the Request Builder hands to a transport.\<close>

definition request_descriptor ::
  "'v HttpClient \<Rightarrow> string \<Rightarrow> string \<Rightarrow> string \<Rightarrow> 'd option \<Rightarrow> 'v dict option \<Rightarrow> bool \<Rightarrow> 't option
   \<Rightarrow> ('d, 'v, 't) send_args" where
  "request_descriptor self method path query data hdrs allow_redirects timeout =
     \<lparr> arg_method = method,
       arg_url = structural_url (scheme self) (host self) (port self) path query,
       arg_data = data,
       arg_headers = (case hdrs of Some h \<Rightarrow> h | None \<Rightarrow> headers self),
       arg_allow_redirects = allow_redirects,
       arg_timeout = timeout \<rparr>"

text \<open>The specification's correlation-id tag.\<close>

definition request_id_tag :: "string \<Rightarrow> string" where
  "request_id_tag rid = (if rid = [] then [] else '' ['' @ rid @ '']'')"

definition outbound_line :: "string \<Rightarrow> string \<Rightarrow> string \<Rightarrow> 'd option \<Rightarrow> 'd log_record" where
  "outbound_line rid m url d =
     (''--->%s HTTP %s %s %s'',
      [LStr (request_id_tag rid), LStr m, LStr url,
       (case d of Some x \<Rightarrow> LData x | None \<Rightarrow> LStr [])])"

definition inbound_line :: "string \<Rightarrow> string \<Rightarrow> string \<Rightarrow> int \<Rightarrow> bytes \<Rightarrow> 'd log_record" where
  "inbound_line rid m url code body =
     (''<---%s HTTP %s %s code=%s data=%s'',
      [LStr (request_id_tag rid), LStr m, LStr url, LInt code, LBytes body])"

text \<open>What both clients keep of a response: the status code and the raw body.\<close>

definition status_and_body :: "('rh, 'ck) response \<Rightarrow> int \<times> bytes" where
  "status_and_body resp = (status_code resp, content resp)"

subsection \<open>A concrete client and responder\<close>

definition example_client :: "string HttpClient" where
  "example_client = HttpClient_init ''example.org'' 8080 ''https'' None"

text \<open>
  A responder that answers \<open>GET /status\<close> with 200 and the body \<open>ok\<close>, any other \<open>GET\<close>
  with 404 and an empty body, and refuses the connection for every other method.
\<close>

definition example_responder ::
  "(string, string, int) send_args \<Rightarrow> string + (string dict, string dict) response" where
  "example_responder a =
     (if arg_method a = ''GET''
      then (if arg_url a = ''https://example.org:8080/status''
            then Inr \<lparr> status_code = 200, content = [111, 107],
                       resp_headers = [(''Server'', ''test'')], cookies = [] \<rparr>
            else Inr \<lparr> status_code = 404, content = [],
                       resp_headers = [(''Server'', ''test'')], cookies = [] \<rparr>)
      else Inl ''ConnectionError'')"

text \<open>The two transports in front of that responder; the world counts the calls.\<close>

definition example_requests ::
  "(string, string, int) send_args \<Rightarrow> nat
   \<Rightarrow> (string + (string dict, string dict) response) \<times> nat" where
  "example_requests a n = (example_responder a, Suc n)"

definition example_aiohttp ::
  "bool \<Rightarrow> (string, string, int) send_args \<Rightarrow> nat \<Rightarrow> (string + int \<times> bytes) \<times> nat" where
  "example_aiohttp ssl a n = (map_sum id status_and_body (example_responder a), Suc n)"

subsection \<open>A broker behind \<open>pika\<close>\<close>

text \<open>
  A broker for the client to run against. It hands out channel numbers in turn; a
  channel is open from its creation (when the broker accepts channels) until it is closed.
  Publishing appends the message to what the broker received, but a routing key longer
  than 255 bytes cannot be written as an AMQP short string: \<open>basic_publish\<close> raises and
  the channel stays as it is.
\<close>

record broker =
  accepting :: bool
  next_channel :: nat
  open_channels :: "nat list"
  published :: "(nat \<times> string \<times> string \<times> string \<times> BasicProperties) list"
  fetched :: "(nat \<times> string) list"

definition broker_channel :: "broker \<Rightarrow> (string + nat) \<times> broker" where
  "broker_channel b =
     (Inr (next_channel b),
      b\<lparr> next_channel := Suc (next_channel b),
         open_channels := (if accepting b then next_channel b # open_channels b
                           else open_channels b) \<rparr>)"

definition broker_is_open :: "nat \<Rightarrow> broker \<Rightarrow> bool" where
  "broker_is_open ch b = (ch \<in> set (open_channels b))"

definition broker_basic_get ::
  "nat \<Rightarrow> string \<Rightarrow> broker \<Rightarrow> (string + string option) \<times> broker" where
  "broker_basic_get ch queue b = (Inr None, b\<lparr> fetched := fetched b @ [(ch, queue)] \<rparr>)"

definition broker_basic_publish ::
  "nat \<Rightarrow> string \<Rightarrow> string \<Rightarrow> string \<Rightarrow> BasicProperties \<Rightarrow> broker
   \<Rightarrow> (string + unit) \<times> broker" where
  "broker_basic_publish ch exchange routing_key body properties b =
     (if length routing_key > 255 then (Inl ''ShortStringTooLong'', b)
      else (Inr (),
            b\<lparr> published := published b @ [(ch, exchange, routing_key, body, properties)] \<rparr>))"

definition broker_close :: "nat \<Rightarrow> broker \<Rightarrow> (string + unit) \<times> broker" where
  "broker_close ch b = (Inr (), b\<lparr> open_channels := removeAll ch (open_channels b) \<rparr>)"

definition broker_pika :: "(nat, broker, string, string option) pika" where
  "broker_pika =
     \<lparr> connection_channel = broker_channel, is_open = broker_is_open,
       basic_get = broker_basic_get, basic_publish = broker_basic_publish,
       channel_close = broker_close \<rparr>"

definition fresh_broker :: "bool \<Rightarrow> (broker, unit) env" where
  "fresh_broker acc =
     \<lparr> world = \<lparr> accepting = acc, next_channel = 0, open_channels = [], published = [],
                 fetched = [] \<rparr>,
       log = [] \<rparr>"

subsection \<open>What is left to render\<close>

text \<open>
  \<open>unrendered\<close>: an enumeration member, a UUID or a Decimal can be reached through dicts
  (keys and values) and lists. \<open>plain_enums\<close>: the value of every enumeration member that
  can be reached so is itself free of them.
\<close>

fun unrendered :: "pyval \<Rightarrow> bool" where
  "unrendered (PyDict kvs) = list_ex (\<lambda>(k, v). unrendered k \<or> unrendered v) kvs"
| "unrendered (PyList xs) = list_ex unrendered xs"
| "unrendered (PyEnum name v) = True"
| "unrendered (PyUUID u) = True"
| "unrendered (PyDecimal d) = True"
| "unrendered obj = False"

fun plain_enums :: "pyval \<Rightarrow> bool" where
  "plain_enums (PyDict kvs) = list_all (\<lambda>(k, v). plain_enums k \<and> plain_enums v) kvs"
| "plain_enums (PyList xs) = list_all plain_enums xs"
| "plain_enums (PyEnum name v) = (\<not> unrendered v)"
| "plain_enums obj = True"

text \<open>A typed message body as \<open>super().to_dict(encode_json=False)\<close> leaves it.\<close>

definition example_order :: pyval where
  "example_order =
     PyDict [(PyStr ''id'', PyUUID 0x12345678123456781234567812345678),
             (PyStr ''price'', PyDecimal (Finite False ''150'' (- 2))),
             (PyStr ''state'', PyEnum ''PAID'' (PyInt 2)),
             (PyStr ''lines'',
              PyList [PyDict [(PyStr ''amount'', PyDecimal (Finite True ''1'' 3))]])]"

section \<open>Properties of the HTTP clients\<close>

lemmas example_simps = example_client_def HttpClient_init_def default_headers_def
  example_responder_def example_requests_def example_aiohttp_def status_and_body_def
  str_int_def str_nat.simps digit_char_def recording_def

lemma built_url:
  "urlunparse (sch, h @ '':'' @ str_int p, path, [], query, []) =
     structural_url sch h p path query"
  by (simp add: urlunparse_def urlunsplit_def structural_url_def Let_def)

text \<open>
  Both request operations, in one equation each: the descriptor is built, the outbound
  line is logged, the transport is called once, and its answer decides the rest.
\<close>

lemma sync_request_unfold:
  "sync_request self req m path query d rid h ar t s =
     (let a = request_descriptor self m path query d h ar t;
          out = outbound_line rid m (arg_url a) d
      in case req a (world s) of
           (Inl e, w) \<Rightarrow> (Inl (Transport e), \<lparr> world = w, log = log s @ [out] \<rparr>)
         | (Inr resp, w) \<Rightarrow>
             (Inr (status_code resp, content resp, resp_headers resp, cookies resp),
              \<lparr> world = w,
                log = log s @ [out, inbound_line rid m (arg_url a) (status_code resp)
                                      (content resp)] \<rparr>))"
proof -
  obtain r w where rw: "req (request_descriptor self m path query d h ar t) (world s) = (r, w)"
    by fastforce
  have rw': "req \<lparr> arg_method = m,
                 arg_url = structural_url (scheme self) (host self) (port self) path query,
                 arg_data = d,
                 arg_headers = (case h of Some h \<Rightarrow> h | None \<Rightarrow> headers self),
                 arg_allow_redirects = ar, arg_timeout = t \<rparr> (world s) = (r, w)"
    using rw by (simp add: request_descriptor_def)
  show ?thesis
    unfolding sync_request_def built_url
    by (cases r)
       (simp_all add: rw rw' Let_def logger_debug_def outbound_line_def inbound_line_def
          request_id_tag_def request_descriptor_def)
qed

lemma async_request_unfold:
  "async_request self aio m path query d rid h ar t s =
     (let a = request_descriptor self m path query d h ar t;
          out = outbound_line rid m (arg_url a) d
      in case aio False a (world s) of
           (Inl e, w) \<Rightarrow> (Inl (Transport e), \<lparr> world = w, log = log s @ [out] \<rparr>)
         | (Inr (code, body), w) \<Rightarrow>
             (Inr (code, body),
              \<lparr> world = w,
                log = log s @ [out, inbound_line rid m (arg_url a) code body] \<rparr>))"
proof -
  obtain r w where rw:
    "aio False (request_descriptor self m path query d h ar t) (world s) = (r, w)"
    by fastforce
  have rw': "aio False \<lparr> arg_method = m,
                 arg_url = structural_url (scheme self) (host self) (port self) path query,
                 arg_data = d,
                 arg_headers = (case h of Some h \<Rightarrow> h | None \<Rightarrow> headers self),
                 arg_allow_redirects = ar, arg_timeout = t \<rparr> (world s) = (r, w)"
    using rw by (simp add: request_descriptor_def)
  show ?thesis
    unfolding async_request_def built_url
    by (cases r)
       (auto simp add: rw rw' Let_def logger_debug_def outbound_line_def inbound_line_def
          request_id_tag_def request_descriptor_def)
qed

text \<open>
  Claim C1. For a scheme that is not empty and a path that is empty or starts with a
  slash, the URL that either client's \<open>request\<close> hands to its transport is exactly
  scheme, \<open>://\<close>, host, \<open>:\<close>, the decimal port, the path and, for a query that is not
  empty, \<open>?\<close> and the query as given: a function of these five components alone, with
  every character of the query passed through.
\<close>

theorem request_url_reassembles_components:
  assumes "scheme self \<noteq> []" and "path = [] \<or> take 1 path = ''/''"
  shows "map arg_url (world (snd (sync_request self (recording r) m path query d rid h ar t s)))
           = map arg_url (world s)
             @ [scheme self @ ''://'' @ host self @ '':'' @ str_int (port self) @ path
                @ (if query = [] then [] else ''?'' @ query)]
       \<and> map arg_url (world (snd (async_request self (\<lambda>ssl. recording r') m path query d rid h
                                     ar t s)))
           = map arg_url (world s)
             @ [scheme self @ ''://'' @ host self @ '':'' @ str_int (port self) @ path
                @ (if query = [] then [] else ''?'' @ query)]"
  using assms
  by (auto simp add: sync_request_unfold async_request_unfold Let_def recording_def
      request_descriptor_def structural_url_def split: sum.splits prod.splits)

theorem request_url_reassembles_components_witness:
  "map arg_url (world (snd (sync_request example_client (recording example_responder)
        ''GET'' ''/status'' ''a=b%20c&d=e f'' None [] None True None
        \<lparr> world = [], log = [] \<rparr>)))
     = [''https://example.org:8080/status?a=b%20c&d=e f'']
   \<and> map arg_url (world (snd (async_request example_client
        (\<lambda>ssl. recording (\<lambda>a. map_sum id status_and_body (example_responder a)))
        ''GET'' ''/status'' ''a=b%20c&d=e f'' None [] None True None
        \<lparr> world = [], log = [] \<rparr>)))
     = [''https://example.org:8080/status?a=b%20c&d=e f'']"
  using request_url_reassembles_components
    [where self = example_client and path = "''/status''" and r = example_responder
       and m = "''GET''" and query = "''a=b%20c&d=e f''" and d = None and rid = "[]"
       and h = None and ar = True and t = None and s = "\<lparr> world = [], log = [] \<rparr>"
       and r' = "\<lambda>a. map_sum id status_and_body (example_responder a)"]
  by (simp add: example_simps)

text \<open>
  Claim C2. When the caller supplies headers, exactly that mapping reaches the transport,
  also when it is empty, and nothing of the configuration's headers is added; when the
  caller omits them, the configuration's current headers are sent, which after a
  replacement through the setter are the replaced ones. This holds for both clients.
\<close>

theorem request_headers_all_or_nothing:
  "map arg_headers (world (snd (sync_request self (recording r) m path query d rid (Some h)
                                  ar t s)))
     = map arg_headers (world s) @ [h]
   \<and> map arg_headers (world (snd (sync_request self (recording r) m path query d rid None
                                    ar t s)))
     = map arg_headers (world s) @ [headers self]
   \<and> map arg_headers (world (snd (sync_request (set_headers v self) (recording r) m path query
                                    d rid None ar t s)))
     = map arg_headers (world s) @ [v]
   \<and> map arg_headers (world (snd (async_request self (\<lambda>ssl. recording r') m path query d rid
                                    (Some h) ar t s)))
     = map arg_headers (world s) @ [h]
   \<and> map arg_headers (world (snd (async_request self (\<lambda>ssl. recording r') m path query d rid
                                    None ar t s)))
     = map arg_headers (world s) @ [headers self]
   \<and> map arg_headers (world (snd (async_request (set_headers v self) (\<lambda>ssl. recording r') m
                                    path query d rid None ar t s)))
     = map arg_headers (world s) @ [v]"
  by (auto simp add: sync_request_unfold async_request_unfold Let_def recording_def
      request_descriptor_def set_headers_def split: sum.splits prod.splits)

theorem request_headers_all_or_nothing_witness:
  "map arg_headers (world (snd (sync_request example_client (recording example_responder)
        ''GET'' ''/status'' [] None [] (Some [(''X-Token'', ''t'')]) True None
        \<lparr> world = [], log = [] \<rparr>)))
     = [ [(''X-Token'', ''t'')] ]
   \<and> map arg_headers (world (snd (sync_request example_client (recording example_responder)
        ''GET'' ''/status'' [] None [] None True None \<lparr> world = [], log = [] \<rparr>)))
     = [ [(''Content-Type'', ''application/json''), (''Accept'', ''application/json'')] ]"
  using request_headers_all_or_nothing
    [where self = example_client and r = example_responder and m = "''GET''"
       and path = "''/status''" and query = "[]" and d = None and rid = "[]"
       and h = "[(''X-Token'', ''t'')]" and ar = True and t = None
       and s = "\<lparr> world = [], log = [] \<rparr>" and v = "[]"
       and r' = "\<lambda>a. map_sum id status_and_body (example_responder a)"]
  by (simp add: example_simps)

text \<open>
  Claim C3. Let the blocking and the non-blocking transport stand in front of the same
  responder: whatever the state of the world, the non-blocking one raises what the
  blocking one raises and otherwise gives the status and body of the blocking one's
  response. Then for the same method, path, query, body, headers, redirect flag and
  timeout (the correlation ids and the states may differ), the non-blocking \<open>request\<close> returns
  the pair of the status and the body of the four values the blocking \<open>request\<close> returns.
\<close>

theorem blocking_and_nonblocking_agree:
  assumes "\<And>a w w'. fst (aio False a w) = map_sum id status_and_body (fst (req a w'))"
  shows "fst (async_request self aio m path query d rid' h ar t s')
           = map_sum id (\<lambda>(code, body, hdrs, cks). (code, body))
               (fst (sync_request self req m path query d rid h ar t s))"
proof -
  let ?a = "request_descriptor self m path query d h ar t"
  obtain r w where rw: "req ?a (world s) = (r, w)" by fastforce
  obtain r' w' where rw': "aio False ?a (world s') = (r', w')" by fastforce
  have "r' = map_sum id status_and_body r"
    using assms [of ?a "world s'" "world s"] rw rw' by simp
  then show ?thesis
    by (cases r)
       (simp_all add: sync_request_unfold async_request_unfold rw rw' Let_def
          status_and_body_def)
qed

theorem blocking_and_nonblocking_agree_witness:
  "fst (async_request example_client example_aiohttp ''GET'' ''/status'' [] None ''b'' None
          True None \<lparr> world = 3, log = [] \<rparr>)
     = Inr (200, [111, 107])
   \<and> fst (sync_request example_client example_requests ''GET'' ''/status'' [] None ''a'' None
            True None \<lparr> world = 0, log = [] \<rparr>)
     = Inr (200, [111, 107], [(''Server'', ''test'')], [])"
proof -
  have same: "\<And>a w w'. fst (example_aiohttp False a w)
                = map_sum id status_and_body (fst (example_requests a w'))"
    by (simp add: example_aiohttp_def example_requests_def)
  have sync: "fst (sync_request example_client example_requests ''GET'' ''/status'' [] None
                     ''a'' None True None \<lparr> world = 0, log = [] \<rparr>)
                = Inr (200, [111, 107], [(''Server'', ''test'')], [])"
    by (simp add: sync_request_unfold Let_def request_descriptor_def structural_url_def
        example_simps)
  show ?thesis
    using blocking_and_nonblocking_agree
      [where aio = example_aiohttp and req = example_requests and self = example_client
         and m = "''GET''" and path = "''/status''"
         and query = "[]" and d = None and rid = "''a''" and rid' = "''b''" and h = None
         and ar = True and t = None and s = "\<lparr> world = 0, log = [] \<rparr>"
         and s' = "\<lparr> world = 3, log = [] \<rparr>", OF same]
      sync
    by simp
qed

text \<open>
  Claim C4. For every transport, each \<open>request\<close> calls it once with the descriptor and
  returns what it produced: the exception it raised, as it is, or the status code and
  body of its response (with the headers and cookies in the blocking client), whatever
  the status code is. The world after the call is the world the single transport call
  left, and no call ends with \<open>HttpClientError\<close>.
\<close>

theorem request_returns_transport_result:
  "fst (sync_request self req m path query d rid h ar t s)
     = (case fst (req (request_descriptor self m path query d h ar t) (world s)) of
          Inl e \<Rightarrow> Inl (Transport e)
        | Inr resp \<Rightarrow> Inr (status_code resp, content resp, resp_headers resp, cookies resp))
   \<and> world (snd (sync_request self req m path query d rid h ar t s))
     = snd (req (request_descriptor self m path query d h ar t) (world s))
   \<and> fst (sync_request self req m path query d rid h ar t s) \<noteq> Inl (HttpClientError c x)
   \<and> fst (async_request self aio m path query d rid h ar t s)
     = (case fst (aio False (request_descriptor self m path query d h ar t) (world s)) of
          Inl e \<Rightarrow> Inl (Transport e)
        | Inr (code, body) \<Rightarrow> Inr (code, body))
   \<and> world (snd (async_request self aio m path query d rid h ar t s))
     = snd (aio False (request_descriptor self m path query d h ar t) (world s))
   \<and> fst (async_request self aio m path query d rid h ar t s) \<noteq> Inl (HttpClientError c x)"
  by (auto simp add: sync_request_unfold async_request_unfold Let_def
      split: sum.splits prod.splits)

theorem request_returns_transport_result_witness:
  "fst (sync_request example_client example_requests ''GET'' ''/missing'' [] None [] None
          True None \<lparr> world = 0, log = [] \<rparr>)
     = Inr (404, [], [(''Server'', ''test'')], [])
   \<and> fst (sync_request example_client example_requests ''POST'' ''/status'' [] None [] None
            True None \<lparr> world = 0, log = [] \<rparr>)
     = Inl (Transport ''ConnectionError'')
   \<and> world (snd (sync_request example_client example_requests ''POST'' ''/status'' [] None []
                    None True None \<lparr> world = 0, log = [] \<rparr>))
     = 1
   \<and> fst (async_request example_client example_aiohttp ''POST'' ''/status'' [] None [] None
            True None \<lparr> world = 0, log = [] \<rparr>)
     = Inl (Transport ''ConnectionError'')"
  using request_returns_transport_result
    [where self = example_client and req = example_requests and aio = example_aiohttp
       and m = "''GET''" and path = "''/missing''" and query = "[]" and d = None
       and rid = "[]" and h = None and ar = True and t = None
       and s = "\<lparr> world = 0, log = [] \<rparr>" and c = 0 and x = "[]"]
    request_returns_transport_result
    [where self = example_client and req = example_requests and aio = example_aiohttp
       and m = "''POST''" and path = "''/status''" and query = "[]" and d = None
       and rid = "[]" and h = None and ar = True and t = None
       and s = "\<lparr> world = 0, log = [] \<rparr>" and c = 0 and x = "[]"]
  by (simp add: request_descriptor_def structural_url_def example_simps)

text \<open>
  Claim C9. Every line either client logs for a request carries the same tag as its first
  argument, and at least one line is logged: for a correlation id that is not empty the
  tag is the id in square brackets after a separating space, and for the empty id it is
  the empty string.
\<close>

theorem request_id_tag_bracketed:
  "set (map (\<lambda>l. take 1 (snd l))
         (drop (length (log s))
            (log (snd (sync_request self req m path query d rid h ar t s)))))
     = {[LStr (if rid = [] then [] else '' ['' @ rid @ '']'')]}
   \<and> set (map (\<lambda>l. take 1 (snd l))
           (drop (length (log s))
              (log (snd (async_request self aio m path query d rid h ar t s)))))
     = {[LStr (if rid = [] then [] else '' ['' @ rid @ '']'')]}"
  by (auto simp add: sync_request_unfold async_request_unfold Let_def outbound_line_def
      inbound_line_def request_id_tag_def split: sum.splits prod.splits)

theorem request_id_tag_bracketed_witness:
  "set (map (\<lambda>l. take 1 (snd l))
         (log (snd (sync_request example_client example_requests ''GET'' ''/status'' [] None
                      ''req-7'' None True None \<lparr> world = 0, log = [] \<rparr>))))
     = {[LStr '' [req-7]'']}
   \<and> set (map (\<lambda>l. take 1 (snd l))
           (log (snd (async_request example_client example_aiohttp ''GET'' ''/status'' [] None
                        [] None True None \<lparr> world = 0, log = [] \<rparr>))))
     = {[LStr []]}"
  using request_id_tag_bracketed
    [where self = example_client and req = example_requests and aio = example_aiohttp
       and m = "''GET''"
       and path = "''/status''" and query = "[]" and d = None and rid = "''req-7''"
       and h = None and ar = True and t = None and s = "\<lparr> world = 0, log = [] \<rparr>"]
    request_id_tag_bracketed
    [where self = example_client and req = example_requests and aio = example_aiohttp
       and m = "''GET''"
       and path = "''/status''" and query = "[]" and d = None and rid = "[]"
       and h = None and ar = True and t = None and s = "\<lparr> world = 0, log = [] \<rparr>"]
  by simp

text \<open>
  Claim C10. A client constructed with the empty dict as \<open>headers\<close> has the built-in pair
  \<open>Content-Type: application/json\<close>, \<open>Accept: application/json\<close> as its headers, as one
  constructed without \<open>headers\<close> has; no construction yields empty headers; a mapping
  that is not empty is stored as given.
\<close>

theorem init_empty_headers_gives_defaults:
  "headers (HttpClient_init h p s (Some []))
     = [(''Content-Type'', ''application/json''), (''Accept'', ''application/json'')]
   \<and> headers (HttpClient_init h p s None)
     = [(''Content-Type'', ''application/json''), (''Accept'', ''application/json'')]
   \<and> headers (HttpClient_init h p s hdrs) \<noteq> []
   \<and> (d \<noteq> [] \<longrightarrow> headers (HttpClient_init h p s (Some d)) = d)"
  by (simp add: HttpClient_init_def default_headers_def split: option.splits)

theorem init_empty_headers_gives_defaults_witness:
  "headers (HttpClient_init ''example.org'' 80 ''http'' (Some [(''X-Token'', ''t'')]))
     = [(''X-Token'', ''t'')]
   \<and> headers (HttpClient_init ''example.org'' 80 ''http'' (Some []))
     = [(''Content-Type'', ''application/json''), (''Accept'', ''application/json'')]"
  using init_empty_headers_gives_defaults
    [where h = "''example.org''" and p = 80 and s = "''http''"
       and d = "[(''X-Token'', ''t'')]" and hdrs = None]
  by simp

section \<open>Properties of the RabbitMQ client\<close>

lemmas broker_simps = broker_pika_def broker_channel_def broker_is_open_def
  broker_basic_get_def broker_basic_publish_def broker_close_def fresh_broker_def
  channel_def publish_def get_def logger_debug_def Let_def

text \<open>
  On the path where \<open>basic_publish\<close> returns, \<open>publish\<close> closes the channel it opened:
  the result and the world are those of \<open>close\<close> on that channel.
\<close>

lemma publish_success_closes:
  assumes "channel T s = (Inr ch, s1)" and "is_open T ch (world s1)"
    and "basic_publish T ch [] queue (case m of Some x \<Rightarrow> x | None \<Rightarrow> [])
           \<lparr> content_type = (case ct of Some c \<Rightarrow> c | None \<Rightarrow> ''application/octect-stream''),
             delivery_mode = DeliveryMode_value (case dm of Some x \<Rightarrow> x | None \<Rightarrow> Persistent) \<rparr>
           (world s1) = (Inr (), w)"
  shows "world (snd (publish T queue m ct dm s)) = snd (channel_close T ch w)"
  using assms by (simp add: publish_def Let_def split: prod.splits sum.splits)

text \<open>
  When \<open>basic_publish\<close> raises, \<open>publish\<close> ends with that exception in the world
  \<open>basic_publish\<close> left: \<open>close\<close> is not called, whatever it would do.
\<close>

lemma publish_failure_skips_close:
  assumes "channel T s = (Inr ch, s1)" and "is_open T ch (world s1)"
    and "basic_publish T ch [] queue (case m of Some x \<Rightarrow> x | None \<Rightarrow> [])
           \<lparr> content_type = (case ct of Some c \<Rightarrow> c | None \<Rightarrow> ''application/octect-stream''),
             delivery_mode = DeliveryMode_value (case dm of Some x \<Rightarrow> x | None \<Rightarrow> Persistent) \<rparr>
           (world s1) = (Inl e, w)"
  shows "publish (T\<lparr> channel_close := c \<rparr>) queue m ct dm s = (Inl (Raised e), s1\<lparr> world := w \<rparr>)"
  using assms by (simp add: publish_def channel_def Let_def split: prod.splits sum.splits)

text \<open>
  Claim C5, at a failing input. \<open>publish\<close> is called with a queue name of 256 bytes on a
  broker that accepts channels: the fresh channel 0 is opened, \<open>basic_publish\<close> raises,
  and \<open>publish\<close> ends with that exception while channel 0 is still open at the broker.
\<close>

theorem publish_leaves_channel_open_on_failure:
  "fst (publish broker_pika (replicate 256 CHR ''q'') (Some ''m'') None None
          (fresh_broker True))
     = Inl (Raised ''ShortStringTooLong'')
   \<and> open_channels (world (snd (publish broker_pika (replicate 256 CHR ''q'') (Some ''m'')
                                   None None (fresh_broker True))))
     = [0]"
  by (simp add: broker_simps)

text \<open>
  Claim C6. Whatever the transport's \<open>basic_get\<close> is, \<open>get\<close> on a channel that is not
  open ends with \<open>AMQPChannelError\<close> and leaves the world and the log as they were; and
  whatever the transport's \<open>basic_publish\<close> is, \<open>publish\<close> whose fresh channel is not
  open ends with \<open>AMQPChannelError\<close> in the state that opening the channel left.
\<close>

theorem closed_channel_raises_before_send:
  "(\<not> is_open T ch (world s) \<longrightarrow>
      get (T\<lparr> basic_get := g \<rparr>) ch queue s
        = (Inl (AMQPChannelError ''Channel is closed''), s))
   \<and> (channel T s = (Inr ch, s1) \<and> \<not> is_open T ch (world s1) \<longrightarrow>
      publish (T\<lparr> basic_publish := p \<rparr>) queue m ct dm s
        = (Inl (AMQPChannelError ''Channel is closed''), s1))"
  by (simp add: get_def publish_def channel_def Let_def)

theorem closed_channel_raises_before_send_witness:
  "get broker_pika 5 ''jobs'' (fresh_broker True)
     = (Inl (AMQPChannelError ''Channel is closed''), fresh_broker True)
   \<and> fst (publish broker_pika ''jobs'' (Some ''m'') None None (fresh_broker False))
     = Inl (AMQPChannelError ''Channel is closed'')
   \<and> published (world (snd (publish broker_pika ''jobs'' (Some ''m'') None None
                               (fresh_broker False))))
     = []"
proof -
  have closed: "\<not> is_open broker_pika 5 (world (fresh_broker True))"
    by (simp add: broker_simps)
  have opened: "channel broker_pika (fresh_broker False)
                  = (Inr 0, snd (channel broker_pika (fresh_broker False)))
                \<and> \<not> is_open broker_pika 0
                      (world (snd (channel broker_pika (fresh_broker False))))"
    by (simp add: broker_simps)
  have same_get: "broker_pika\<lparr> basic_get := broker_basic_get \<rparr> = broker_pika"
    and same_publish: "broker_pika\<lparr> basic_publish := broker_basic_publish \<rparr> = broker_pika"
    by (simp_all add: broker_pika_def)
  have st: "published (world (snd (channel broker_pika (fresh_broker False)))) = []"
    by (simp add: broker_simps)
  show ?thesis
    using closed opened st
      closed_channel_raises_before_send
        [where T = broker_pika and ch = 5 and s = "fresh_broker True" and g = broker_basic_get
           and queue = "''jobs''" and p = broker_basic_publish and m = "Some ''m''"
           and ct = None and dm = None
           and ?s1.0 = "snd (channel broker_pika (fresh_broker False))"]
      closed_channel_raises_before_send
        [where T = broker_pika and ch = 0 and s = "fresh_broker False"
           and g = broker_basic_get and queue = "''jobs''" and p = broker_basic_publish
           and m = "Some ''m''" and ct = None and dm = None
           and ?s1.0 = "snd (channel broker_pika (fresh_broker False))"]
    by (simp add: same_get same_publish)
qed

text \<open>
  Claim C8, at a failing input. \<open>publish\<close> is called with the queue \<open>jobs\<close> and nothing
  else: the one message the broker receives has the content type
  \<open>application/octect-stream\<close>, which is not \<open>application/octet-stream\<close>, and the delivery
  mode 2, the value of \<open>DeliveryMode.Persistent\<close>.
\<close>

theorem publish_default_content_type:
  "map (\<lambda>(ch, exchange, routing_key, body, props). (content_type props, delivery_mode props))
     (published (world (snd (publish broker_pika ''jobs'' None None None (fresh_broker True)))))
     = [(''application/octect-stream'', DeliveryMode_value Persistent)]
   \<and> ''application/octect-stream'' \<noteq> ''application/octet-stream''"
  by (simp add: broker_simps)

section \<open>Properties of the serialisation mixin\<close>

lemmas py_eval = str_uuid_def hex_digits.simps hex_char_def Let_def sign_str_def
  format_plus_d_def str_int_def str_nat.simps digit_char_def

text \<open>
  The string of a UUID has 36 characters, and the string of a finite Decimal holds the
  digits of its coefficient, all of them and in their order, with at most the decimal
  point between two of them.
\<close>

lemma hex_digits_length: "length (hex_digits w n) = w"
proof (induction w arbitrary: n)
  case 0
  then show ?case by (simp add: hex_digits.simps)
next
  case (Suc w)
  show ?case by (subst hex_digits.simps) (simp add: Suc.IH)
qed

lemma str_uuid_length: "length (str_uuid u) = 36"
  by (simp add: str_uuid_def Let_def hex_digits_length)

lemma str_decimal_keeps_digits:
  "\<exists>pre k mid post. (mid = [] \<or> mid = ''.'')
     \<and> str_decimal (Finite sg digits e) = pre @ take k digits @ mid @ drop k digits @ post"
proof -
  let ?left = "e + int (length digits)"
  let ?dot = "if e \<le> 0 \<and> ?left > - 6 then ?left else 1"
  consider (zero) "?dot \<le> 0" | (all) "?dot > 0" "?dot \<ge> int (length digits)"
    | (split) "?dot > 0" "?dot < int (length digits)"
    by linarith
  then show ?thesis
  proof cases
    case zero
    then have "str_decimal (Finite sg digits e)
        = (sign_str sg @ ''0.'' @ replicate (nat (- ?dot)) CHR ''0'') @ take 0 digits @ []
          @ drop 0 digits
          @ (if ?left = ?dot then [] else ''E'' @ format_plus_d (?left - ?dot))"
      by (simp add: Let_def)
    then show ?thesis by blast
  next
    case all
    then have "str_decimal (Finite sg digits e)
        = sign_str sg @ take (length digits) digits @ [] @ drop (length digits) digits
          @ (replicate (nat (?dot - int (length digits))) CHR ''0''
             @ (if ?left = ?dot then [] else ''E'' @ format_plus_d (?left - ?dot)))"
      by (simp add: Let_def)
    then show ?thesis by blast
  next
    case split
    then have "str_decimal (Finite sg digits e)
        = sign_str sg @ take (nat ?dot) digits @ ''.'' @ drop (nat ?dot) digits
          @ (if ?left = ?dot then [] else ''E'' @ format_plus_d (?left - ?dot))"
      by (simp add: Let_def)
    then show ?thesis by blast
  qed
qed

lemma dict_setitem_fresh: "k \<notin> fst ` set d \<Longrightarrow> dict_setitem d k v = d @ [(k, v)]"
  by (induction d) auto

lemma fold_setitem_fresh:
  "distinct (map fst kvs) \<Longrightarrow> fst ` set acc \<inter> fst ` set kvs = {} \<Longrightarrow>
   fold (\<lambda>(k, v) d. dict_setitem d k v) kvs acc = acc @ kvs"
proof (induction kvs arbitrary: acc)
  case Nil
  then show ?case by simp
next
  case (Cons kv kvs)
  obtain k v where kv: "kv = (k, v)" by (cases kv)
  have fresh: "k \<notin> fst ` set acc" using Cons.prems(2) kv by auto
  have "fst ` set (acc @ [(k, v)]) \<inter> fst ` set kvs = {}"
    using Cons.prems kv by auto
  moreover have "distinct (map fst kvs)" using Cons.prems(1) by simp
  ultimately have "fold (\<lambda>(k, v) d. dict_setitem d k v) kvs (acc @ [(k, v)])
                     = (acc @ [(k, v)]) @ kvs"
    by (rule Cons.IH[rotated])
  then show ?case by (simp add: kv dict_setitem_fresh[OF fresh])
qed

lemma fold_map_items:
  "fold (\<lambda>(k, v) d. dict_setitem d (f k) (g v)) kvs acc
     = fold (\<lambda>(k, v) d. dict_setitem d k v) (map (\<lambda>(k, v). (f k, g v)) kvs) acc"
  by (induction kvs arbitrary: acc) (auto simp: case_prod_beta)

text \<open>
  A dict whose keys are distinct strings, as the field names of a dataclass are, keeps
  its keys and their order; each value is converted in place.
\<close>

lemma asdict_fields:
  assumes "distinct (map fst flds)"
  shows "asdict (PyDict (map (\<lambda>(n, v). (PyStr n, v)) flds))
           = PyDict (map (\<lambda>(n, v). (PyStr n, asdict v)) flds)"
proof -
  let ?L = "map (\<lambda>(n, v). (PyStr n, asdict v)) flds"
  have items:
    "map (\<lambda>(k, v). (asdict k, asdict v)) (map (\<lambda>(n, v). (PyStr n, v)) flds) = ?L"
    by (induction flds) auto
  have keys: "map fst ?L = map PyStr (map fst flds)"
    by (induction flds) auto
  have "distinct (map fst ?L)"
    unfolding keys using assms by (simp add: distinct_map inj_on_def)
  then have "fold (\<lambda>(k, v) d. dict_setitem d k v) ?L [] = [] @ ?L"
    by (rule fold_setitem_fresh) simp
  then show ?thesis
    by (simp only: asdict.simps fold_map_items[of asdict asdict] items append_Nil)
qed

lemma setitem_ex: "list_ex Q (dict_setitem d k v) \<Longrightarrow> list_ex Q d \<or> Q (k, v)"
  by (induction d) (auto split: if_splits)

lemma fold_setitem_ex:
  "list_ex Q (fold (\<lambda>(k, v) d. dict_setitem d (f k) (f v)) kvs acc) \<Longrightarrow>
   list_ex Q acc \<or> (\<exists>(k, v) \<in> set kvs. Q (f k, f v))"
proof (induction kvs arbitrary: acc)
  case Nil
  then show ?case by simp
next
  case (Cons kv kvs)
  obtain k v where kv: "kv = (k, v)" by (cases kv)
  from Cons.prems
  have "list_ex Q (fold (\<lambda>(k, v) d. dict_setitem d (f k) (f v)) kvs
                     (dict_setitem acc (f k) (f v)))"
    by (simp add: kv)
  from Cons.IH[OF this] show ?case
    using setitem_ex[of Q acc "f k" "f v"] by (auto simp: kv)
qed

text \<open>
  Nothing is left to render in the result, provided no enumeration member hides a UUID,
  a Decimal or another member in its value (such a value is handed out as it is).
\<close>

lemma asdict_rendered: "plain_enums obj \<Longrightarrow> \<not> unrendered (asdict obj)"
proof (induction obj)
  case (PyList xs)
  then show ?case by (auto simp: list_ex_iff list_all_iff)
next
  case (PyDict kvs)
  show ?case
  proof
    assume "unrendered (asdict (PyDict kvs))"
    then have "list_ex (\<lambda>(k, v). unrendered k \<or> unrendered v)
                 (fold (\<lambda>(k, v) d. dict_setitem d (asdict k) (asdict v)) kvs [])"
      by simp
    from fold_setitem_ex[OF this]
    obtain k v where kv: "(k, v) \<in> set kvs"
      and un: "unrendered (asdict k) \<or> unrendered (asdict v)"
      by auto
    have pk: "plain_enums k" and pv: "plain_enums v"
      using PyDict.prems kv by (auto simp: list_all_iff)
    have "k \<in> Basic_BNFs.fsts (k, v)" and "v \<in> Basic_BNFs.snds (k, v)"
      by simp_all
    then have "\<not> unrendered (asdict k)" and "\<not> unrendered (asdict v)"
      using PyDict.IH kv pk pv by blast+
    with un show False by simp
  qed
qed simp_all

text \<open>
  Claim C7. \<open>_asdict\<close> gives an enumeration member as its underlying value, a UUID as the
  string of its 32 hexadecimal digits in the groups 8-4-4-4-12, and a Decimal as the
  string \<open>str\<close> gives, never as a number; it does so for every element of a list and
  every field of a dict of named fields, at any depth. What \<open>_asdict\<close> and
  \<open>Model.to_dict\<close> return holds no enumeration member, UUID or Decimal any more, as long
  as no member's own value holds one.
\<close>

theorem asdict_renders_enum_uuid_decimal:
  "asdict (PyEnum name v) = v
   \<and> asdict (PyUUID u) = PyStr (str_uuid u)
   \<and> asdict (PyDecimal d) = PyStr (str_decimal d)
   \<and> asdict (PyList xs) = PyList (map asdict xs)
   \<and> (distinct (map fst flds) \<longrightarrow>
        asdict (PyDict (map (\<lambda>(n, v). (PyStr n, v)) flds))
          = PyDict (map (\<lambda>(n, v). (PyStr n, asdict v)) flds))
   \<and> (plain_enums obj \<longrightarrow> \<not> unrendered (asdict obj))
   \<and> (plain_enums (super_to_dict self encode_json) \<longrightarrow>
        \<not> unrendered (Model_to_dict super_to_dict self encode_json))"
proof (intro conjI impI)
  show "asdict (PyDict (map (\<lambda>(n, v). (PyStr n, v)) flds))
          = PyDict (map (\<lambda>(n, v). (PyStr n, asdict v)) flds)"
    if "distinct (map fst flds)"
    using that by (rule asdict_fields)
  show "\<not> unrendered (asdict obj)" if "plain_enums obj"
    using that by (rule asdict_rendered)
  show "\<not> unrendered (Model_to_dict super_to_dict self encode_json)"
    if "plain_enums (super_to_dict self encode_json)"
    using asdict_rendered[OF that] by (simp add: Model_to_dict_def)
qed simp_all

theorem asdict_renders_enum_uuid_decimal_witness:
  "plain_enums example_order
   \<and> \<not> unrendered (Model_to_dict (\<lambda>self encode_json. example_order) () False)
   \<and> Model_to_dict (\<lambda>self encode_json. example_order) () False
     = PyDict [(PyStr ''id'', PyStr ''12345678-1234-5678-1234-567812345678''),
               (PyStr ''price'', PyStr ''1.50''),
               (PyStr ''state'', PyInt 2),
               (PyStr ''lines'', PyList [PyDict [(PyStr ''amount'', PyStr ''-1E+3'')]])]"
proof -
  have plain: "plain_enums example_order"
    by (simp add: example_order_def)
  have val: "Model_to_dict (\<lambda>self encode_json. example_order) () False
     = PyDict [(PyStr ''id'', PyStr ''12345678-1234-5678-1234-567812345678''),
               (PyStr ''price'', PyStr ''1.50''),
               (PyStr ''state'', PyInt 2),
               (PyStr ''lines'', PyList [PyDict [(PyStr ''amount'', PyStr ''-1E+3'')]])]"
    by (simp add: Model_to_dict_def example_order_def py_eval)
  show ?thesis
    using plain val
      asdict_renders_enum_uuid_decimal
        [where super_to_dict = "\<lambda>self encode_json. example_order" and self = "()"
           and encode_json = False and obj = example_order and flds = "[]" and xs = "[]"
           and name = "''PAID''" and v = "PyInt 2" and u = 0
           and d = "Finite False ''150'' (- 2)"]
    by simp
qed

end
